theory Spec2Isabelle
  imports Complex_Main
begin

section \<open>JavaScript values used by the chat moderation manager\<close>

text \<open>
  The development embeds \<^verbatim>\<open>src/backend/chat/moderation/chat-moderation-manager.js\<close>.

  A JavaScript string is modelled as the list of its Unicode code points. The regular
  expression of \<^verbatim>\<open>countEmojis\<close> carries the \<^verbatim>\<open>u\<close> flag and therefore counts code
  points; the patterns of \<^verbatim>\<open>replace\<close> and \<^verbatim>\<open>includes\<close> and the URL pattern are made
  of Basic Latin characters, where code points and UTF-16 code units coincide.
\<close>

type_synonym jsstring = "nat list"

definition str :: "string \<Rightarrow> jsstring" where
  "str s = map of_char s"

text \<open>
  \<^verbatim>\<open>String.prototype.includes\<close> and \<^verbatim>\<open>String.prototype.replace\<close> with a string
  pattern: only the first occurrence is replaced, and in the replacement text the
  patterns \<^verbatim>\<open>$$\<close>, \<^verbatim>\<open>$&\<close>, \<^verbatim>\<open>$`\<close> and \<^verbatim>\<open>$'\<close> stand for a dollar sign, the matched
  text, the text before and the text after the match (a string pattern has no capture
  groups, so \<^verbatim>\<open>$1\<close> and the like stay as they are).
\<close>

fun splitAtFirst :: "jsstring \<Rightarrow> jsstring \<Rightarrow> (jsstring \<times> jsstring) option" where
  "splitAtFirst pat [] = (if pat = [] then Some ([], []) else None)"
| "splitAtFirst pat (c # cs) =
     (if take (length pat) (c # cs) = pat then Some ([], drop (length pat) (c # cs))
      else (case splitAtFirst pat cs of
              None \<Rightarrow> None
            | Some (pre, post) \<Rightarrow> Some (c # pre, post)))"

definition js_includes :: "jsstring \<Rightarrow> jsstring \<Rightarrow> bool" where
  "js_includes s pat = (splitAtFirst pat s \<noteq> None)"

fun getSubstitution :: "jsstring \<Rightarrow> jsstring \<Rightarrow> jsstring \<Rightarrow> jsstring \<Rightarrow> jsstring" where
  "getSubstitution matched pre post (c # d # r) =
     (if c = 36 \<and> d = 36 then 36 # getSubstitution matched pre post r
      else if c = 36 \<and> d = 38 then matched @ getSubstitution matched pre post r
      else if c = 36 \<and> d = 96 then pre @ getSubstitution matched pre post r
      else if c = 36 \<and> d = 39 then post @ getSubstitution matched pre post r
      else c # getSubstitution matched pre post (d # r))"
| "getSubstitution matched pre post r = r"

definition js_replace :: "jsstring \<Rightarrow> jsstring \<Rightarrow> jsstring \<Rightarrow> jsstring" where
  "js_replace s pat replacement =
     (case splitAtFirst pat s of
        None \<Rightarrow> s
      | Some (pre, post) \<Rightarrow> pre @ getSubstitution pat pre post replacement @ post)"

text \<open>
  \<^verbatim>\<open>String.prototype.toLowerCase\<close>. On a string of Basic Latin characters (code points
  below 128) it maps the letters \<^verbatim>\<open>A\<close> to \<^verbatim>\<open>Z\<close> (65 to 90) to \<^verbatim>\<open>a\<close> to \<^verbatim>\<open>z\<close> and
  keeps every other character. The case mapping of a string with other characters
  follows the Unicode tables of the runtime and is a parameter.
\<close>

definition toLowerCase :: "(jsstring \<Rightarrow> jsstring) \<Rightarrow> jsstring \<Rightarrow> jsstring" where
  "toLowerCase unicodeLower s =
     (if list_all (\<lambda>c. c < 128) s
      then map (\<lambda>c. if 65 \<le> c \<and> c \<le> 90 then c + 32 else c) s
      else unicodeLower s)"

text \<open>
  Numbers. A JavaScript number is a double. The integers from \<^verbatim>\<open>-(2^53 - 1)\<close> to
  \<^verbatim>\<open>2^53 - 1\<close> (\<^verbatim>\<open>Number.isSafeInteger\<close>) are doubles, and on them the two number
  operations of the file are exact:
  \<^item> \<^verbatim>\<open>Number.prototype.toString\<close> gives the decimal digits, with a minus sign (code
    point 45) for a negative number;
  \<^item> \<^verbatim>\<open>minutes / 60 >= hours\<close> (lines 159 to 162) holds exactly when the exact quotient
    is at least \<^verbatim>\<open>hours\<close>: the quotient is below \<^verbatim>\<open>2^48\<close>, where doubles are at most
    \<^verbatim>\<open>1/32\<close> apart, and an exact quotient below an integer is below it by \<^verbatim>\<open>1/60\<close> or
    more, so rounding never reaches the integer.
  Outside the safe integers the runtime rounds and prints in exponent form; there the
  result of either operation is a parameter.
\<close>

definition isSafeInteger :: "int \<Rightarrow> bool" where
  "isSafeInteger i = (- 9007199254740991 \<le> i \<and> i \<le> 9007199254740991)"

fun digitsOf :: "nat \<Rightarrow> jsstring" where
  "digitsOf n = (if n < 10 then [48 + n] else digitsOf (n div 10) @ [48 + n mod 10])"

declare digitsOf.simps [simp del]

definition decimalDigits :: "int \<Rightarrow> jsstring" where
  "decimalDigits i = (if i < 0 then 45 # digitsOf (nat (- i)) else digitsOf (nat i))"

definition numberToString :: "(int \<Rightarrow> jsstring) \<Rightarrow> int \<Rightarrow> jsstring" where
  "numberToString large i = (if isSafeInteger i then decimalDigits i else large i)"

definition viewTimeReached :: "(int \<Rightarrow> int \<Rightarrow> bool) \<Rightarrow> int \<Rightarrow> int \<Rightarrow> bool" where
  "viewTimeReached large minutes hours =
     (if isSafeInteger minutes \<and> isSafeInteger hours
      then (of_int hours :: rat) \<le> of_int minutes / 60
      else large minutes hours)"

text \<open>
  The URL pattern of line 146, \<^verbatim>\<open>/[\w]{2,}[.][\w]{2,}/gi\<close>, tested on a fresh \<^verbatim>\<open>RegExp\<close>
  object (so \<^verbatim>\<open>lastIndex\<close> is 0). \<^verbatim>\<open>\w\<close> is a Basic Latin letter, a digit or the
  underscore. A match at a position needs a run of two or more word characters, a dot,
  and again two or more word characters; the dot is no word character, so the first run
  is the maximal one. \<^verbatim>\<open>test\<close> tries every start position.
\<close>

definition isWordChar :: "nat \<Rightarrow> bool" where
  "isWordChar c = ((48 \<le> c \<and> c \<le> 57) \<or> (65 \<le> c \<and> c \<le> 90) \<or> c = 95 \<or> (97 \<le> c \<and> c \<le> 122))"

definition urlMatchAt :: "jsstring \<Rightarrow> bool" where
  "urlMatchAt s =
     (2 \<le> length (takeWhile isWordChar s) \<and>
      (case dropWhile isWordChar s of
         [] \<Rightarrow> False
       | c # r \<Rightarrow> c = 46 \<and> 2 \<le> length (takeWhile isWordChar r)))"

fun urlRegexTest :: "jsstring \<Rightarrow> bool" where
  "urlRegexTest [] = False"
| "urlRegexTest (c # cs) = (urlMatchAt (c # cs) \<or> urlRegexTest cs)"

text \<open>
  \<^verbatim>\<open>countEmojis\<close> (lines 101 to 104): the number of matches of
  \<^verbatim>\<open>/\p{Extended_Pictographic}/ug\<close> in \<^verbatim>\<open>str || ''\<close>. The Unicode property table
  belongs to the runtime and is a parameter; \<^verbatim>\<open>None\<close> is an undefined \<^verbatim>\<open>text\<close>.
\<close>

definition countEmojis :: "(nat \<Rightarrow> bool) \<Rightarrow> jsstring option \<Rightarrow> nat" where
  "countEmojis isExtendedPictographic s =
     length (filter isExtendedPictographic (case s of None \<Rightarrow> [] | Some t \<Rightarrow> t))"

section \<open>Data model\<close>

text \<open>
  The settings object is a JSON document: \<^verbatim>\<open>load\<close> tests the sub-objects
  \<^verbatim>\<open>exemptRoles\<close>, \<^verbatim>\<open>emoteLimit\<close> and \<^verbatim>\<open>urlModeration\<close> against \<^verbatim>\<open>null\<close>, and
  \<^verbatim>\<open>moderateMessage\<close> tests \<^verbatim>\<open>viewTime\<close>, \<^verbatim>\<open>outputMessage\<close> and \<^verbatim>\<open>max\<close> for
  truthiness, so each of them is optional (\<^verbatim>\<open>None\<close> is \<^verbatim>\<open>null\<close> or \<^verbatim>\<open>undefined\<close>).
  A property access on a missing sub-object raises \<^verbatim>\<open>TypeError\<close>.
  Numbers of the settings are integers, and an \<^verbatim>\<open>enabled\<close> flag is a boolean (the
  file reads it in boolean tests only, where a missing flag counts as false).
\<close>

record bannedWordListSettings =
  bwl_enabled :: bool

record emoteLimitSettings =
  el_enabled :: bool
  el_max :: "int option"

record viewTimeSettings =
  vt_enabled :: bool
  viewTimeInHours :: int

record urlModerationSettings =
  um_enabled :: bool
  viewTime :: "viewTimeSettings option"
  outputMessage :: "jsstring option"

record settings =
  bannedWordList :: "bannedWordListSettings option"
  emoteLimit :: "emoteLimitSettings option"
  urlModeration :: "urlModerationSettings option"
  exemptRoles :: "jsstring list option"

record bannedWordEntry =
  word_text :: jsstring

record bannedWordsDoc =
  doc_words :: "bannedWordEntry list option"

record messagePart =
  part_type :: jsstring
  part_text :: "jsstring option"

record chatMessage =
  msg_id :: jsstring
  username :: jsstring
  rawText :: jsstring
  roles :: "jsstring list"
  parts :: "messagePart list"

record viewer =
  minutesInChannel :: int

datatype error = TypeError | DatabaseError | OtherError

text \<open>Messages posted to the worker thread (lines 83 to 88, 181 to 189, 213 to 218).\<close>

datatype workerMessage =
    BannedWordsUpdate "jsstring list"
  | ModerateMessageTask jsstring jsstring bool "int option"

datatype logLevel = LogDebug | LogInfo | LogWarn | LogError

text \<open>
  Every call the module makes on a collaborator, in the order of the calls. A worker
  object is named by a number: the count of workers created before it.
\<close>

datatype event =
    ChatDeleteMessage jsstring
  | ChatSendChatMessage jsstring
  | Logger logLevel jsstring
  | WorkerNew nat jsstring
  | WorkerPostMessage nat workerMessage
  | WorkerTerminate nat
  | WorkerUnref nat
  | RegisterPermitCommand
  | SettingsDbPush settings
  | BannedWordsDbPush bannedWordsDoc

text \<open>The module's variables, and the trace of the calls made so far.\<close>

record state =
  chatModerationSettings :: settings
  bannedWords :: bannedWordsDoc
  moderationService :: "nat option"
  workersCreated :: nat
  events :: "event list"

text \<open>
  The collaborators are not part of the file and are parameters. A database read gives
  an error (the exception thrown), or \<^verbatim>\<open>None\<close> for a falsy value or an object without
  keys, or the document read. A database write gives the exception it throws, if any.
  \<^verbatim>\<open>servicePath\<close> is the result of \<^verbatim>\<open>path.resolve(__dirname, "./moderation-service.js")\<close>.
  \<^verbatim>\<open>unicodeToLowerCase\<close>, \<^verbatim>\<open>largeNumberToString\<close> and \<^verbatim>\<open>largeViewTimeReached\<close> are
  the runtime's results outside Basic Latin and outside the safe integers.
\<close>

record env =
  userIsInRole :: "jsstring \<Rightarrow> jsstring list \<Rightarrow> jsstring list option \<Rightarrow> bool"
  hasTemporaryPermission :: "jsstring \<Rightarrow> bool"
  getUserByUsername :: "jsstring \<Rightarrow> viewer option"
  isExtendedPictographic :: "nat \<Rightarrow> bool"
  unicodeToLowerCase :: "jsstring \<Rightarrow> jsstring"
  largeNumberToString :: "int \<Rightarrow> jsstring"
  largeViewTimeReached :: "int \<Rightarrow> int \<Rightarrow> bool"
  servicePath :: jsstring
  settingsDbGetData :: "error + settings option"
  bannedWordsDbGetData :: "error + bannedWordsDoc option"
  settingsDbPush :: "settings \<Rightarrow> error option"
  bannedWordsDbPush :: "bannedWordsDoc \<Rightarrow> error option"

definition emit :: "event \<Rightarrow> state \<Rightarrow> state" where
  "emit e st = st\<lparr>events := events st @ [e]\<rparr>"

text \<open>The default settings and word list of lines 13 to 34.\<close>

definition defaultEmoteLimit :: emoteLimitSettings where
  "defaultEmoteLimit = \<lparr>el_enabled = False, el_max = Some 10\<rparr>"

definition defaultUrlModeration :: urlModerationSettings where
  "defaultUrlModeration =
     \<lparr>um_enabled = False,
      viewTime = Some \<lparr>vt_enabled = False, viewTimeInHours = 0\<rparr>,
      outputMessage = Some []\<rparr>"

definition defaultSettings :: settings where
  "defaultSettings =
     \<lparr>bannedWordList = Some \<lparr>bwl_enabled = False\<rparr>,
      emoteLimit = Some defaultEmoteLimit,
      urlModeration = Some defaultUrlModeration,
      exemptRoles = Some []\<rparr>"

definition initialState :: state where
  "initialState =
     \<lparr>chatModerationSettings = defaultSettings,
      bannedWords = \<lparr>doc_words = Some []\<rparr>,
      moderationService = None,
      workersCreated = 0,
      events = []\<rparr>"

section \<open>Worker supervisor\<close>

text \<open>\<^verbatim>\<open>getBannedWordsList\<close> (lines 36 to 39).\<close>

definition getBannedWordsList :: "state \<Rightarrow> jsstring list" where
  "getBannedWordsList st =
     (case doc_words (bannedWords st) of
        None \<Rightarrow> []
      | Some ws \<Rightarrow> map word_text ws)"

text \<open>
  \<^verbatim>\<open>startModerationService\<close> (lines 46 to 91). Registering the three listeners changes
  no variable and makes no call; the listeners are the functions \<^verbatim>\<open>onWorkerMessage\<close>,
  \<^verbatim>\<open>onWorkerError\<close> and \<^verbatim>\<open>onWorkerExit\<close> below.
\<close>

definition startModerationService :: "env \<Rightarrow> state \<Rightarrow> state" where
  "startModerationService env st =
     (case moderationService st of
        Some w \<Rightarrow> st
      | None \<Rightarrow>
          (let path0 = servicePath env;
               path1 = (if js_includes path0 (str ''app.asar'')
                        then js_replace path0 (str ''app.asar'') (str ''app.asar.unpacked'')
                        else path0);
               w = workersCreated st;
               st1 = emit (WorkerNew w path1) st;
               st2 = st1\<lparr>moderationService := Some w, workersCreated := Suc w\<rparr>;
               st3 = emit (WorkerPostMessage w (BannedWordsUpdate (getBannedWordsList st2))) st2
           in emit (Logger LogInfo (str ''Finished setting up chat moderation worker.'')) st3))"

text \<open>
  The listener of the worker's \<^verbatim>\<open>message\<close> event (lines 59 to 70); an event is
  \<^verbatim>\<open>None\<close> for \<^verbatim>\<open>null\<close>, or its type and its \<^verbatim>\<open>messageId\<close> (the empty string is falsy).
\<close>

definition onWorkerMessage :: "(jsstring \<times> jsstring option) option \<Rightarrow> state \<Rightarrow> state" where
  "onWorkerMessage ev st =
     (case ev of
        None \<Rightarrow> st
      | Some (ty, mid) \<Rightarrow>
          if ty = str ''deleteMessage'' then
            (case mid of
               None \<Rightarrow> st
             | Some i \<Rightarrow>
                 if i = [] then st
                 else emit (ChatDeleteMessage i)
                        (emit (Logger LogDebug
                           (str ''Chat message with id '' @ [39] @ i @ [39]
                              @ str '' contains a banned word. Deleting...'')) st))
          else st)"

text \<open>
  The listener of the worker's \<^verbatim>\<open>error\<close> event (lines 72 to 77): the reference is
  dropped, and the restart of line 76 is commented out. \<^verbatim>\<open>unref\<close> is called on the
  module variable, which is \<^verbatim>\<open>null\<close> when the service was stopped in between.
\<close>

definition onWorkerError :: "jsstring \<Rightarrow> state \<Rightarrow> error + state" where
  "onWorkerError code st =
     (let st1 = emit (Logger LogWarn (str ''Moderation worker failed with code: '' @ code @ str ''.'')) st
      in case moderationService st1 of
           None \<Rightarrow> Inl TypeError
         | Some w \<Rightarrow> Inr ((emit (WorkerUnref w) st1)\<lparr>moderationService := None\<rparr>))"

definition onWorkerExit :: "jsstring \<Rightarrow> state \<Rightarrow> state" where
  "onWorkerExit code st =
     emit (Logger LogDebug (str ''Moderation service stopped with code: '' @ code @ str ''.'')) st"

text \<open>\<^verbatim>\<open>stopService\<close> (lines 93 to 99).\<close>

definition stopService :: "state \<Rightarrow> state" where
  "stopService st =
     (case moderationService st of
        None \<Rightarrow> st
      | Some w \<Rightarrow> (emit (WorkerUnref w) (emit (WorkerTerminate w) st))\<lparr>moderationService := None\<rparr>)"

section \<open>Moderation dispatcher\<close>

text \<open>
  \<^verbatim>\<open>moderateMessage\<close> is an \<^verbatim>\<open>async\<close> function: it gives a promise that is
  fulfilled when the body returns and rejected when the body throws. \<^verbatim>\<open>Returned\<close> and
  \<^verbatim>\<open>Threw\<close> are these two outcomes; the calls made before a throw stay in the trace.
  The one \<^verbatim>\<open>await\<close> (line 157) is run without other handlers in between.
\<close>

datatype outcome = Returned | Threw error

datatype flow = Continue | Return | Throw error

text \<open>
  The condition of lines 113 to 117, with the short-circuit order of \<^verbatim>\<open>&&\<close>: a
  sub-object is only read when every toggle before it is off.
\<close>

definition policyTogglesOff :: "settings \<Rightarrow> error + bool" where
  "policyTogglesOff s =
     (case bannedWordList s of
        None \<Rightarrow> Inl TypeError
      | Some b \<Rightarrow>
          if bwl_enabled b then Inr False
          else (case emoteLimit s of
                  None \<Rightarrow> Inl TypeError
                | Some e \<Rightarrow>
                    if el_enabled e then Inr False
                    else (case urlModeration s of
                            None \<Rightarrow> Inl TypeError
                          | Some u \<Rightarrow> Inr (\<not> um_enabled u))))"

text \<open>Lines 132 to 135: emote parts, and pictographic characters of the text parts.\<close>

definition emoteCount :: "chatMessage \<Rightarrow> nat" where
  "emoteCount m = length (filter (\<lambda>p. part_type p = str ''emote'') (parts m))"

definition emojiCount :: "env \<Rightarrow> chatMessage \<Rightarrow> nat" where
  "emojiCount env m =
     foldl (\<lambda>acc p. acc + countEmojis (isExtendedPictographic env) (part_text p)) 0
       (filter (\<lambda>p. part_type p = str ''text'') (parts m))"

text \<open>
  The emote-limit stage (lines 131 to 140): whether the message is deleted there.
  \<^verbatim>\<open>!!max\<close> is false for a missing \<^verbatim>\<open>max\<close> and for 0.
\<close>

definition emoteLimitExceeded :: "env \<Rightarrow> settings \<Rightarrow> chatMessage \<Rightarrow> error + bool" where
  "emoteLimitExceeded env s m =
     (case emoteLimit s of
        None \<Rightarrow> Inl TypeError
      | Some e \<Rightarrow>
          (case el_max e of
             None \<Rightarrow> Inr False
           | Some mx \<Rightarrow>
               Inr (el_enabled e \<and> mx \<noteq> 0 \<and> mx < int (emoteCount m + emojiCount env m))))"

text \<open>Lines 171 to 176: the deletion of the URL stage and the optional chat reply.\<close>

definition urlDelete :: "chatMessage \<Rightarrow> jsstring \<Rightarrow> state \<Rightarrow> state" where
  "urlDelete m output st =
     (let st1 = emit (ChatDeleteMessage (msg_id m)) st
      in if output = [] then st1
         else emit (ChatSendChatMessage (js_replace output (str ''{userName}'') (username m))) st1)"

text \<open>
  Lines 155 to 169. \<^verbatim>\<open>viewer.minutesInChannel\<close> throws when the lookup gave \<^verbatim>\<open>null\<close>.
\<close>

definition urlViewTimeCheck :: "env \<Rightarrow> urlModerationSettings \<Rightarrow> chatMessage \<Rightarrow> state \<Rightarrow> flow \<times> state" where
  "urlViewTimeCheck env u m st =
     (let output = (case outputMessage u of None \<Rightarrow> [] | Some t \<Rightarrow> t);
          gated = (case viewTime u of None \<Rightarrow> None | Some vt \<Rightarrow> if vt_enabled vt then Some vt else None)
      in case gated of
           Some vt \<Rightarrow>
             (case getUserByUsername env (username m) of
                None \<Rightarrow> (Throw TypeError, st)
              | Some v \<Rightarrow>
                  if viewTimeReached (largeViewTimeReached env) (minutesInChannel v) (viewTimeInHours vt)
                  then (Return, st)
                  else (Continue,
                        urlDelete m
                          (js_replace output (str ''{viewTime}'')
                             (numberToString (largeNumberToString env) (viewTimeInHours vt)))
                          (emit (Logger LogDebug (str ''Url moderation: Not enough view time.'')) st)))
         | None \<Rightarrow>
             (Continue,
              urlDelete m output
                (emit (Logger LogDebug (str ''Url moderation: User does not have exempt role.'')) st)))"

text \<open>The URL stage (lines 142 to 177).\<close>

definition urlStage :: "env \<Rightarrow> chatMessage \<Rightarrow> state \<Rightarrow> flow \<times> state" where
  "urlStage env m st =
     (case urlModeration (chatModerationSettings st) of
        None \<Rightarrow> (Throw TypeError, st)
      | Some u \<Rightarrow>
          if \<not> um_enabled u then (Continue, st)
          else if hasTemporaryPermission env (username m) then (Return, st)
          else if \<not> urlRegexTest (rawText m) then (Return, st)
          else urlViewTimeCheck env u m
                 (emit (Logger LogDebug (str ''Url moderation: Found url in message...'')) st))"

text \<open>
  Lines 179 to 189: the task is posted on \<^verbatim>\<open>moderationService\<close> with no test of the
  variable, so the call throws when it is \<^verbatim>\<open>null\<close>.
\<close>

definition postModerateMessage :: "chatMessage \<Rightarrow> state \<Rightarrow> outcome \<times> state" where
  "postModerateMessage m st =
     (case moderationService st of
        None \<Rightarrow> (Threw TypeError, st)
      | Some w \<Rightarrow>
          (case bannedWordList (chatModerationSettings st) of
             None \<Rightarrow> (Threw TypeError, st)
           | Some b \<Rightarrow>
               (Returned,
                emit (WorkerPostMessage w
                        (ModerateMessageTask (rawText m) (msg_id m) (bwl_enabled b) None)) st)))"

text \<open>\<^verbatim>\<open>moderateMessage\<close> (lines 110 to 191); \<^verbatim>\<open>None\<close> is a \<^verbatim>\<open>null\<close> message.\<close>

definition moderateMessage :: "env \<Rightarrow> chatMessage option \<Rightarrow> state \<Rightarrow> outcome \<times> state" where
  "moderateMessage env chatMessage st =
     (case chatMessage of
        None \<Rightarrow> (Returned, st)
      | Some m \<Rightarrow>
          (case policyTogglesOff (chatModerationSettings st) of
             Inl e \<Rightarrow> (Threw e, st)
           | Inr True \<Rightarrow> (Returned, st)
           | Inr False \<Rightarrow>
               if userIsInRole env (username m) (roles m) (exemptRoles (chatModerationSettings st))
               then (Returned, st)
               else (case emoteLimitExceeded env (chatModerationSettings st) m of
                       Inl e \<Rightarrow> (Threw e, st)
                     | Inr True \<Rightarrow> (Returned, emit (ChatDeleteMessage (msg_id m)) st)
                     | Inr False \<Rightarrow>
                         (case urlStage env m st of
                            (Throw e, st1) \<Rightarrow> (Threw e, st1)
                          | (Return, st1) \<Rightarrow> (Returned, st1)
                          | (Continue, st1) \<Rightarrow> postModerateMessage m st1))))"

section \<open>Policy store\<close>

text \<open>The handler of \<^verbatim>\<open>chatMessageSettingsUpdate\<close> (lines 193 to 202).\<close>

definition chatMessageSettingsUpdate :: "env \<Rightarrow> settings \<Rightarrow> state \<Rightarrow> state" where
  "chatMessageSettingsUpdate env s st =
     (let st1 = emit (SettingsDbPush s) (st\<lparr>chatModerationSettings := s\<rparr>)
      in if settingsDbPush env s = Some DatabaseError
         then emit (Logger LogError (str ''Error saving chat moderation settings'')) st1
         else st1)"

text \<open>\<^verbatim>\<open>saveBannedWordList\<close> (lines 204 to 220): the post is guarded by a test of the variable.\<close>

definition saveBannedWordList :: "env \<Rightarrow> state \<Rightarrow> state" where
  "saveBannedWordList env st =
     (let st1 = emit (BannedWordsDbPush (bannedWords st)) st;
          st2 = (if bannedWordsDbPush env (bannedWords st) = Some DatabaseError
                 then emit (Logger LogError (str ''Error saving banned words data'')) st1
                 else st1)
      in case moderationService st2 of
           None \<Rightarrow> st2
         | Some w \<Rightarrow> emit (WorkerPostMessage w (BannedWordsUpdate (getBannedWordsList st2))) st2)"

text \<open>
  The handlers of \<^verbatim>\<open>addBannedWords\<close>, \<^verbatim>\<open>removeBannedWord\<close> and
  \<^verbatim>\<open>removeAllBannedWords\<close> (lines 222 to 235). A document without \<^verbatim>\<open>words\<close> makes the
  first two throw.
\<close>

definition addBannedWords :: "env \<Rightarrow> bannedWordEntry list \<Rightarrow> state \<Rightarrow> error + state" where
  "addBannedWords env ws st =
     (case doc_words (bannedWords st) of
        None \<Rightarrow> Inl TypeError
      | Some old \<Rightarrow>
          Inr (saveBannedWordList env (st\<lparr>bannedWords := (bannedWords st)\<lparr>doc_words := Some (old @ ws)\<rparr>\<rparr>)))"

definition removeBannedWord :: "env \<Rightarrow> jsstring \<Rightarrow> state \<Rightarrow> error + state" where
  "removeBannedWord env wordText st =
     (case doc_words (bannedWords st) of
        None \<Rightarrow> Inl TypeError
      | Some old \<Rightarrow>
          Inr (saveBannedWordList env
                 (st\<lparr>bannedWords := (bannedWords st)
                       \<lparr>doc_words :=
                          Some (filter (\<lambda>w. toLowerCase (unicodeToLowerCase env) (word_text w) \<noteq> wordText)
                                  old)\<rparr>\<rparr>)))"

definition removeAllBannedWords :: "env \<Rightarrow> state \<Rightarrow> state" where
  "removeAllBannedWords env st =
     saveBannedWordList env (st\<lparr>bannedWords := (bannedWords st)\<lparr>doc_words := Some []\<rparr>\<rparr>)"

definition getChatModerationData :: "state \<Rightarrow> settings \<times> bannedWordEntry list option" where
  "getChatModerationData st = (chatModerationSettings st, doc_words (bannedWords st))"

text \<open>
  \<^verbatim>\<open>load\<close> (lines 244 to 283). The settings read are assigned and then completed in
  place: only \<^verbatim>\<open>exemptRoles\<close>, \<^verbatim>\<open>emoteLimit\<close> and \<^verbatim>\<open>urlModeration\<close> are tested.
  An exception of a read ends the \<^verbatim>\<open>try\<close> block; it is logged when it is a
  \<^verbatim>\<open>DatabaseError\<close> and dropped otherwise.
\<close>

definition backfill :: "settings \<Rightarrow> settings" where
  "backfill s =
     s\<lparr>exemptRoles := Some (case exemptRoles s of None \<Rightarrow> [] | Some r \<Rightarrow> r),
       emoteLimit := Some (case emoteLimit s of None \<Rightarrow> defaultEmoteLimit | Some e \<Rightarrow> e),
       urlModeration := Some (case urlModeration s of None \<Rightarrow> defaultUrlModeration | Some u \<Rightarrow> u)\<rparr>"

definition loadSettings :: "settings option \<Rightarrow> state \<Rightarrow> state" where
  "loadSettings d st =
     (case d of
        None \<Rightarrow> st
      | Some s \<Rightarrow>
          (let st1 = st\<lparr>chatModerationSettings := backfill s\<rparr>
           in case urlModeration (backfill s) of
                None \<Rightarrow> st1
              | Some u \<Rightarrow> if um_enabled u then emit RegisterPermitCommand st1 else st1))"

definition loadWords :: "bannedWordsDoc option \<Rightarrow> state \<Rightarrow> state" where
  "loadWords d st = (case d of None \<Rightarrow> st | Some ws \<Rightarrow> st\<lparr>bannedWords := ws\<rparr>)"

definition loadCatch :: "error \<Rightarrow> state \<Rightarrow> state" where
  "loadCatch e st =
     (if e = DatabaseError
      then emit (Logger LogError (str ''Error loading chat moderation data'')) st
      else st)"

definition load :: "env \<Rightarrow> state \<Rightarrow> state" where
  "load env st =
     (let st1 = (case settingsDbGetData env of
                   Inl e \<Rightarrow> loadCatch e st
                 | Inr d \<Rightarrow>
                     (let st0 = loadSettings d st
                      in case bannedWordsDbGetData env of
                           Inl e \<Rightarrow> loadCatch e st0
                         | Inr w \<Rightarrow> loadWords w st0));
          st2 = emit (Logger LogInfo (str ''Attempting to setup chat moderation worker...'')) st1
      in startModerationService env st2)"

section \<open>Reading the trace\<close>

definition deleteCalls :: "event list \<Rightarrow> jsstring list" where
  "deleteCalls es = concat (map (\<lambda>e. case e of ChatDeleteMessage i \<Rightarrow> [i] | _ \<Rightarrow> []) es)"

definition sendCalls :: "event list \<Rightarrow> jsstring list" where
  "sendCalls es = concat (map (\<lambda>e. case e of ChatSendChatMessage t \<Rightarrow> [t] | _ \<Rightarrow> []) es)"

definition workerPosts :: "event list \<Rightarrow> (nat \<times> workerMessage) list" where
  "workerPosts es = concat (map (\<lambda>e. case e of WorkerPostMessage w t \<Rightarrow> [(w, t)] | _ \<Rightarrow> []) es)"

definition workersSpawned :: "event list \<Rightarrow> nat" where
  "workersSpawned es = length (filter (\<lambda>e. case e of WorkerNew w p \<Rightarrow> True | _ \<Rightarrow> False) es)"

section \<open>Concrete collaborators, settings and messages\<close>

text \<open>
  A role resolver that looks for a common role, a permit for the user \<^verbatim>\<open>guest\<close>, a
  viewer directory that knows \<^verbatim>\<open>alice\<close> (two hours in the channel) only, the emoticon
  block U+1F600 to U+1F64F as pictographic characters, and an empty profile store.
  The examples use Basic Latin text and safe integers only, so the three runtime
  parameters are never asked.
\<close>

definition exampleEnv :: env where
  "exampleEnv =
     \<lparr>userIsInRole = (\<lambda>u rs ex. case ex of None \<Rightarrow> False | Some e \<Rightarrow> list_ex (\<lambda>r. r \<in> set e) rs),
      hasTemporaryPermission = (\<lambda>u. u = str ''guest''),
      getUserByUsername = (\<lambda>u. if u = str ''alice'' then Some \<lparr>minutesInChannel = 120\<rparr> else None),
      isExtendedPictographic = (\<lambda>c. 128512 \<le> c \<and> c \<le> 128591),
      unicodeToLowerCase = (\<lambda>s. s),
      largeNumberToString = (\<lambda>i. str ''1e+21''),
      largeViewTimeReached = (\<lambda>minutes hours. True),
      servicePath = str ''/firebot/resources/app.asar/backend/chat/moderation/moderation-service.js'',
      settingsDbGetData = Inr None,
      bannedWordsDbGetData = Inr None,
      settingsDbPush = (\<lambda>s. None),
      bannedWordsDbPush = (\<lambda>d. None)\<rparr>"

definition textMessage :: "string \<Rightarrow> string \<Rightarrow> string \<Rightarrow> string list \<Rightarrow> chatMessage" where
  "textMessage i u t rs =
     \<lparr>msg_id = str i, username = str u, rawText = str t, roles = map str rs,
      parts = [\<lparr>part_type = str ''text'', part_text = Some (str t)\<rparr>]\<rparr>"

definition emotePart :: messagePart where
  "emotePart = \<lparr>part_type = str ''emote'', part_text = None\<rparr>"

definition bannedWordsOnly :: settings where
  "bannedWordsOnly = defaultSettings\<lparr>bannedWordList := Some \<lparr>bwl_enabled = True\<rparr>, exemptRoles := Some [str ''mod'']\<rparr>"

definition emoteLimitOf :: "int \<Rightarrow> settings" where
  "emoteLimitOf n = defaultSettings\<lparr>emoteLimit := Some \<lparr>el_enabled = True, el_max = Some n\<rparr>\<rparr>"

definition urlGated :: "int \<Rightarrow> string \<Rightarrow> settings" where
  "urlGated h t =
     defaultSettings\<lparr>urlModeration :=
       Some \<lparr>um_enabled = True,
             viewTime = Some \<lparr>vt_enabled = True, viewTimeInHours = h\<rparr>,
             outputMessage = Some (str t)\<rparr>\<rparr>"

definition runningWith :: "settings \<Rightarrow> state" where
  "runningWith s = startModerationService exampleEnv (initialState\<lparr>chatModerationSettings := s\<rparr>)"

definition floodMessage :: chatMessage where
  "floodMessage =
     \<lparr>msg_id = str ''m2'', username = str ''alice'', rawText = str ''see example.com'', roles = [],
      parts = [emotePart, emotePart,
               \<lparr>part_type = str ''text'', part_text = Some (str ''see example.com '' @ [128512])\<rparr>]\<rparr>"

definition urlAndBannedWords :: settings where
  "urlAndBannedWords = (urlGated 5 ''No links, {userName}'')\<lparr>bannedWordList := Some \<lparr>bwl_enabled = True\<rparr>\<rparr>"

text \<open>
  A stored settings document that holds \<^verbatim>\<open>urlModeration: {enabled: true}\<close> and nothing
  else, and the collaborators whose settings store holds a given document.
\<close>

definition partialSettings :: settings where
  "partialSettings =
     \<lparr>bannedWordList = None, emoteLimit = None,
      urlModeration = Some \<lparr>um_enabled = True, viewTime = None, outputMessage = None\<rparr>,
      exemptRoles = None\<rparr>"

definition storedEnv :: "settings \<Rightarrow> env" where
  "storedEnv s = exampleEnv\<lparr>settingsDbGetData := Inr (Some s)\<rparr>"

section \<open>Facts about the trace and the string helpers\<close>

lemma emit_fields [simp]:
  "events (emit e st) = events st @ [e]"
  "chatModerationSettings (emit e st) = chatModerationSettings st"
  "bannedWords (emit e st) = bannedWords st"
  "moderationService (emit e st) = moderationService st"
  "workersCreated (emit e st) = workersCreated st"
  by (simp_all add: emit_def)

lemma deleteCalls_simps [simp]:
  "deleteCalls [] = []"
  "deleteCalls (xs @ ys) = deleteCalls xs @ deleteCalls ys"
  "deleteCalls (e # es) = (case e of ChatDeleteMessage i \<Rightarrow> [i] | _ \<Rightarrow> []) @ deleteCalls es"
  by (simp_all add: deleteCalls_def)

lemma sendCalls_simps [simp]:
  "sendCalls [] = []"
  "sendCalls (xs @ ys) = sendCalls xs @ sendCalls ys"
  "sendCalls (e # es) = (case e of ChatSendChatMessage t \<Rightarrow> [t] | _ \<Rightarrow> []) @ sendCalls es"
  by (simp_all add: sendCalls_def)

lemma workerPosts_simps [simp]:
  "workerPosts [] = []"
  "workerPosts (xs @ ys) = workerPosts xs @ workerPosts ys"
  "workerPosts (e # es) = (case e of WorkerPostMessage w t \<Rightarrow> [(w, t)] | _ \<Rightarrow> []) @ workerPosts es"
  by (simp_all add: workerPosts_def)

lemma str_nonempty: "str (c # cs) \<noteq> []"
  by (simp add: str_def)

text \<open>The decimal digits of a number hold no dollar sign, so they are inserted as they are.\<close>

lemma digitsOf_range: "c \<in> set (digitsOf n) \<Longrightarrow> 48 \<le> c \<and> c \<le> 57"
proof (induction n rule: digitsOf.induct)
  case (1 n)
  show ?case
  proof (cases "n < 10")
    case True
    with "1.prems" show ?thesis by (simp add: digitsOf.simps [of n])
  next
    case False
    have "n mod 10 < 10" by simp
    with False "1.prems" "1.IH" show ?thesis
      by (auto simp add: digitsOf.simps [of n])
  qed
qed

lemma digitsOf_nonempty: "digitsOf n \<noteq> []"
  by (simp add: digitsOf.simps [of n])

lemma decimalDigits_no_dollar: "36 \<notin> set (decimalDigits i)"
  using digitsOf_range [of 36] by (auto simp add: decimalDigits_def)

lemma decimalDigits_nonempty: "decimalDigits i \<noteq> []"
  by (simp add: decimalDigits_def digitsOf_nonempty)

lemma numberToString_safe: "isSafeInteger i \<Longrightarrow> numberToString large i = decimalDigits i"
  by (simp add: numberToString_def)

lemma viewTimeReached_safe:
  "isSafeInteger minutes \<Longrightarrow> isSafeInteger hours \<Longrightarrow>
   viewTimeReached large minutes hours = ((of_int hours :: rat) \<le> of_int minutes / 60)"
  by (simp add: viewTimeReached_def)

lemma getSubstitution_no_dollar: "36 \<notin> set r \<Longrightarrow> getSubstitution m b a r = r"
  by (induction m b a r rule: getSubstitution.induct) auto

text \<open>A replacement text without a dollar sign is inserted as it is.\<close>

lemma js_replace_plain:
  "36 \<notin> set r \<Longrightarrow> splitAtFirst pat s = Some (pre, post) \<Longrightarrow> js_replace s pat r = pre @ r @ post"
  by (simp add: js_replace_def getSubstitution_no_dollar)

lemma js_replace_nonempty:
  assumes "s \<noteq> []"
  shows "js_replace s pat (decimalDigits i) \<noteq> []"
proof (cases "splitAtFirst pat s")
  case None
  with assms show ?thesis by (simp add: js_replace_def)
next
  case (Some p)
  then show ?thesis
    by (cases p)
      (simp add: js_replace_def getSubstitution_no_dollar decimalDigits_no_dollar
         decimalDigits_nonempty)
qed

section \<open>Facts about the concrete examples\<close>

lemma runningWith_fields:
  "chatModerationSettings (runningWith s) = s"
  "moderationService (runningWith s) = Some 0"
  "bannedWords (runningWith s) = \<lparr>doc_words = Some []\<rparr>"
  "workersCreated (runningWith s) = 1"
  by (simp_all add: runningWith_def startModerationService_def initialState_def Let_def)

lemma runningWith_trace:
  "deleteCalls (events (runningWith s)) = []"
  "sendCalls (events (runningWith s)) = []"
  "workerPosts (events (runningWith s)) = [(0, BannedWordsUpdate [])]"
  by (simp_all add: runningWith_def startModerationService_def initialState_def Let_def
        getBannedWordsList_def emit_def)

lemma textMessage_fields:
  "msg_id (textMessage i u t rs) = str i"
  "username (textMessage i u t rs) = str u"
  "rawText (textMessage i u t rs) = str t"
  "roles (textMessage i u t rs) = map str rs"
  "parts (textMessage i u t rs) = [\<lparr>part_type = str ''text'', part_text = Some (str t)\<rparr>]"
  by (simp_all add: textMessage_def)

lemma exampleEnv_fields:
  "userIsInRole exampleEnv u rs ex
     = (case ex of None \<Rightarrow> False | Some e \<Rightarrow> list_ex (\<lambda>r. r \<in> set e) rs)"
  "hasTemporaryPermission exampleEnv u = (u = str ''guest'')"
  "getUserByUsername exampleEnv u
     = (if u = str ''alice'' then Some \<lparr>minutesInChannel = 120\<rparr> else None)"
  "isExtendedPictographic exampleEnv c = (128512 \<le> c \<and> c \<le> 128591)"
  by (simp_all add: exampleEnv_def)

lemma names_differ:
  "str ''bob'' \<noteq> str ''guest''" "str ''bob'' \<noteq> str ''alice''"
  "str ''alice'' \<noteq> str ''guest''" "str ''text'' \<noteq> str ''emote''"
  by (simp_all add: str_def)

lemma url_example: "urlRegexTest (str ''see example.com'')"
  by (simp add: str_def urlMatchAt_def isWordChar_def)

lemma no_url_example: "\<not> urlRegexTest (str ''hello'')"
  by (simp add: str_def urlMatchAt_def isWordChar_def)

lemma template_example:
  "js_replace (js_replace (str ''Need {viewTime}h, {userName}'') (str ''{viewTime}'') (decimalDigits 5))
     (str ''{userName}'') (str ''alice'') = str ''Need 5h, alice''"
  by (simp add: str_def js_replace_def decimalDigits_def digitsOf.simps)

lemma case_lower:
  "toLowerCase f (str ''foo'') = str ''foo''" "toLowerCase f (str ''Foo'') = str ''foo''"
  "str ''foo'' \<noteq> str ''Foo''"
  by (simp_all add: str_def toLowerCase_def)

lemma bannedWordsOnly_fields:
  "bannedWordList bannedWordsOnly = Some \<lparr>bwl_enabled = True\<rparr>"
  "exemptRoles bannedWordsOnly = Some [str ''mod'']"
  "policyTogglesOff bannedWordsOnly = Inr False"
  "emoteLimitExceeded env bannedWordsOnly m = Inr False"
  "urlModeration bannedWordsOnly = Some defaultUrlModeration"
  "\<not> um_enabled defaultUrlModeration"
  by (simp_all add: bannedWordsOnly_def defaultSettings_def defaultEmoteLimit_def
        defaultUrlModeration_def policyTogglesOff_def emoteLimitExceeded_def)

lemma urlGated_fields:
  "bannedWordList (urlGated h t) = Some \<lparr>bwl_enabled = False\<rparr>"
  "emoteLimit (urlGated h t) = Some defaultEmoteLimit"
  "exemptRoles (urlGated h t) = Some []"
  "urlModeration (urlGated h t)
     = Some \<lparr>um_enabled = True,
             viewTime = Some \<lparr>vt_enabled = True, viewTimeInHours = h\<rparr>,
             outputMessage = Some (str t)\<rparr>"
  "policyTogglesOff (urlGated h t) = Inr False"
  "emoteLimitExceeded env (urlGated h t) m = Inr False"
  by (simp_all add: urlGated_def defaultSettings_def defaultEmoteLimit_def policyTogglesOff_def
        emoteLimitExceeded_def)

lemma urlAndBannedWords_fields:
  "bannedWordList urlAndBannedWords = Some \<lparr>bwl_enabled = True\<rparr>"
  "emoteLimit urlAndBannedWords = Some defaultEmoteLimit"
  "exemptRoles urlAndBannedWords = Some []"
  "urlModeration urlAndBannedWords
     = Some \<lparr>um_enabled = True,
             viewTime = Some \<lparr>vt_enabled = True, viewTimeInHours = 5\<rparr>,
             outputMessage = Some (str ''No links, {userName}'')\<rparr>"
  "emoteLimitExceeded env urlAndBannedWords m = Inr False"
  by (simp_all add: urlAndBannedWords_def urlGated_def defaultSettings_def defaultEmoteLimit_def
        emoteLimitExceeded_def)

lemma floodMessage_fields:
  "msg_id floodMessage = str ''m2''"
  "username floodMessage = str ''alice''"
  "rawText floodMessage = str ''see example.com''"
  "roles floodMessage = []"
  by (simp_all add: floodMessage_def)

lemma floodMessage_count: "emoteCount floodMessage + emojiCount exampleEnv floodMessage = 3"
  by (simp add: emoteCount_def emojiCount_def floodMessage_def emotePart_def countEmojis_def
        exampleEnv_fields names_differ str_def)

lemma storedEnv_read: "settingsDbGetData (storedEnv s) = Inr (Some s)"
  by (simp add: storedEnv_def)

section \<open>Worker supervisor: start and stop\<close>

text \<open>
  Claim C9. \<^verbatim>\<open>startModerationService\<close> called while a worker is running changes
  nothing: no variable, no call, so no second worker is created. \<^verbatim>\<open>stopService\<close>
  called while no worker is running changes nothing, in particular right after a
  \<^verbatim>\<open>stopService\<close>. A second start right after a start is therefore the first one.
\<close>

theorem start_stop_idempotent:
  "(moderationService st \<noteq> None \<longrightarrow> startModerationService env st = st) \<and>
   startModerationService env (startModerationService env st) = startModerationService env st \<and>
   workersSpawned (events (startModerationService env (startModerationService env st)))
     = workersSpawned (events (startModerationService env st)) \<and>
   (moderationService st = None \<longrightarrow> stopService st = st) \<and>
   stopService (stopService st) = stopService st"
proof -
  have a: "\<And>s. moderationService s \<noteq> None \<Longrightarrow> startModerationService env s = s"
    by (auto simp add: startModerationService_def)
  have b: "moderationService (startModerationService env st) \<noteq> None"
    by (cases "moderationService st") (simp_all add: startModerationService_def Let_def)
  have c: "\<And>s. moderationService s = None \<Longrightarrow> stopService s = s"
    by (simp add: stopService_def)
  have d: "moderationService (stopService st) = None"
    by (cases "moderationService st") (simp_all add: stopService_def)
  show ?thesis using a b c d by simp
qed

text \<open>
  Claim C9 on the example: a start on the running service and a stop on the initial
  state change nothing, and exactly one worker was created.
\<close>

theorem start_stop_idempotent_witness:
  "moderationService (runningWith defaultSettings) \<noteq> None \<and>
   startModerationService exampleEnv (runningWith defaultSettings) = runningWith defaultSettings \<and>
   workersSpawned (events (startModerationService exampleEnv (runningWith defaultSettings))) = 1 \<and>
   moderationService initialState = None \<and>
   stopService initialState = initialState \<and>
   stopService (stopService (runningWith defaultSettings)) = stopService (runningWith defaultSettings)"
proof -
  have a: "moderationService (runningWith defaultSettings) \<noteq> None"
    by (simp add: runningWith_fields)
  have b: "moderationService initialState = None"
    by (simp add: initialState_def)
  have c: "workersSpawned (events (runningWith defaultSettings)) = 1"
    by (simp add: workersSpawned_def runningWith_def startModerationService_def initialState_def
          Let_def emit_def)
  show ?thesis
    using a b c start_stop_idempotent [of "runningWith defaultSettings" exampleEnv]
      start_stop_idempotent [of initialState exampleEnv]
    by simp
qed

section \<open>Dispatcher: the stages of \<^verbatim>\<open>moderateMessage\<close>\<close>

lemma policyTogglesOff_emote:
  "bannedWordList s \<noteq> None \<Longrightarrow> emoteLimit s = Some e \<Longrightarrow> el_enabled e
     \<Longrightarrow> policyTogglesOff s = Inr False"
  by (auto simp add: policyTogglesOff_def)

lemma policyTogglesOff_url:
  "bannedWordList s \<noteq> None \<Longrightarrow> emoteLimit s \<noteq> None \<Longrightarrow> urlModeration s = Some u \<Longrightarrow> um_enabled u
     \<Longrightarrow> policyTogglesOff s = Inr False"
  by (auto simp add: policyTogglesOff_def)

lemma emoteLimitExceeded_total:
  "emoteLimit s \<noteq> None \<Longrightarrow> \<exists>b. emoteLimitExceeded env s m = Inr b"
  by (cases "emoteLimit s"; cases "el_max (the (emoteLimit s))")
     (auto simp add: emoteLimitExceeded_def)

lemma emoteLimitExceeded_present:
  "emoteLimitExceeded env s m = Inr b \<Longrightarrow> emoteLimit s \<noteq> None"
  by (cases "emoteLimit s") (simp_all add: emoteLimitExceeded_def)

text \<open>A message that passes every stage ends in the post of lines 181 to 189.\<close>

lemma moderateMessage_reaches_post:
  assumes "\<not> userIsInRole env (username m) (roles m) (exemptRoles (chatModerationSettings st))"
    and "bannedWordList (chatModerationSettings st) = Some b" and "bwl_enabled b"
    and "emoteLimitExceeded env (chatModerationSettings st) m = Inr False"
    and "urlModeration (chatModerationSettings st) = Some u" and "\<not> um_enabled u"
  shows "moderateMessage env (Some m) st = postModerateMessage m st"
  using assms by (simp add: moderateMessage_def policyTogglesOff_def urlStage_def)

text \<open>
  Claim C8. When \<^verbatim>\<open>bannedWordList.enabled\<close>, \<^verbatim>\<open>emoteLimit.enabled\<close> and
  \<^verbatim>\<open>urlModeration.enabled\<close> are all false, \<^verbatim>\<open>moderateMessage\<close> returns for every
  message (a \<^verbatim>\<open>null\<close> one included) and leaves the state as it was: no variable
  changes and the trace gets no call (no deletion, no chat message, no post, no log).
\<close>

theorem all_toggles_off_no_effect:
  assumes "bannedWordList (chatModerationSettings st) = Some b" and "\<not> bwl_enabled b"
    and "emoteLimit (chatModerationSettings st) = Some e" and "\<not> el_enabled e"
    and "urlModeration (chatModerationSettings st) = Some u" and "\<not> um_enabled u"
  shows "moderateMessage env chatMessage st = (Returned, st)"
  using assms by (cases chatMessage) (simp_all add: moderateMessage_def policyTogglesOff_def)

text \<open>Claim C8 on the default settings, for a message that holds a link.\<close>

theorem all_toggles_off_no_effect_witness:
  "policyTogglesOff (chatModerationSettings initialState) = Inr True \<and>
   moderateMessage exampleEnv (Some (textMessage ''m1'' ''bob'' ''see example.com'' [])) initialState
     = (Returned, initialState)"
  using all_toggles_off_no_effect [of initialState "\<lparr>bwl_enabled = False\<rparr>" defaultEmoteLimit
      defaultUrlModeration exampleEnv "Some (textMessage ''m1'' ''bob'' ''see example.com'' [])"]
  by (simp add: initialState_def defaultSettings_def defaultEmoteLimit_def defaultUrlModeration_def
        policyTogglesOff_def)

text \<open>
  Claim C1, as the code has it. For a message whose author holds an exempt role, with
  at least one policy toggle on, \<^verbatim>\<open>moderateMessage\<close> returns and leaves the state as
  it was: the emote-limit and URL stages delete nothing, and the message is not posted
  to the worker either, because the post of lines 181 to 189 stands inside the
  \<^verbatim>\<open>if (moderateMessage)\<close> block of line 128.
\<close>

theorem exempt_author_no_side_effect:
  assumes "userIsInRole env (username m) (roles m) (exemptRoles (chatModerationSettings st))"
    and "policyTogglesOff (chatModerationSettings st) = Inr False"
  shows "moderateMessage env (Some m) st = (Returned, st)"
  using assms by (simp add: moderateMessage_def)

text \<open>Claim C1, amended, on a moderator's message while the banned-word list is on.\<close>

theorem exempt_author_no_side_effect_witness:
  "userIsInRole exampleEnv (str ''bob'') [str ''mod''] (exemptRoles bannedWordsOnly) \<and>
   policyTogglesOff bannedWordsOnly = Inr False \<and>
   moderateMessage exampleEnv (Some (textMessage ''m1'' ''bob'' ''hello'' [''mod'']))
       (runningWith bannedWordsOnly)
     = (Returned, runningWith bannedWordsOnly)"
  using exempt_author_no_side_effect [of exampleEnv "textMessage ''m1'' ''bob'' ''hello'' [''mod'']"
      "runningWith bannedWordsOnly"]
  by (simp add: runningWith_fields textMessage_fields exampleEnv_fields bannedWordsOnly_fields)

text \<open>
  Claim C1 as stated fails: the author holds the exempt role \<^verbatim>\<open>mod\<close>, the banned-word
  list is on and a worker is running, yet the only message the worker ever got is the
  word list sent at start; no \<^verbatim>\<open>moderateMessage\<close> task is posted.
\<close>

theorem exempt_author_not_forwarded:
  "userIsInRole exampleEnv (str ''bob'') [str ''mod''] (exemptRoles bannedWordsOnly) \<and>
   bannedWordList bannedWordsOnly = Some \<lparr>bwl_enabled = True\<rparr> \<and>
   moderationService (runningWith bannedWordsOnly) = Some 0 \<and>
   workerPosts (events (snd (moderateMessage exampleEnv
       (Some (textMessage ''m1'' ''bob'' ''hello'' [''mod''])) (runningWith bannedWordsOnly))))
     = [(0, BannedWordsUpdate [])]"
  by (simp add: moderateMessage_def runningWith_fields runningWith_trace textMessage_fields
        exampleEnv_fields bannedWordsOnly_fields)

text \<open>
  Claim C6. For a message of an author without an exempt role, with the emote limit on
  and a positive \<^verbatim>\<open>max\<close>, when the emote parts plus the pictographic characters of
  the text parts number more than \<^verbatim>\<open>max\<close>, \<^verbatim>\<open>moderateMessage\<close> returns after one
  \<^verbatim>\<open>deleteMessage\<close> call for the message and nothing else: the URL stage makes no
  call and nothing is posted to the worker. The settings hold the \<^verbatim>\<open>bannedWordList\<close>
  object that the test of line 114 reads.
\<close>

theorem emote_limit_deletes_once:
  assumes "\<not> userIsInRole env (username m) (roles m) (exemptRoles (chatModerationSettings st))"
    and "bannedWordList (chatModerationSettings st) \<noteq> None"
    and "emoteLimit (chatModerationSettings st) = Some e"
    and "el_enabled e" and "el_max e = Some mx" and "0 < mx"
    and "mx < int (emoteCount m + emojiCount env m)"
  shows "moderateMessage env (Some m) st = (Returned, emit (ChatDeleteMessage (msg_id m)) st)"
proof -
  have "policyTogglesOff (chatModerationSettings st) = Inr False"
    using assms by (simp add: policyTogglesOff_emote)
  moreover have "emoteLimitExceeded env (chatModerationSettings st) m = Inr True"
    using assms by (simp add: emoteLimitExceeded_def)
  ultimately show ?thesis
    using assms(1) by (simp add: moderateMessage_def)
qed

text \<open>
  Claim C6 on a message with two emotes and one emoji under a limit of two; the message
  also holds a link, which the URL stage never sees.
\<close>

theorem emote_limit_deletes_once_witness:
  "\<not> userIsInRole exampleEnv (username floodMessage) (roles floodMessage) (exemptRoles (emoteLimitOf 2)) \<and>
   emoteLimit (emoteLimitOf 2) = Some \<lparr>el_enabled = True, el_max = Some 2\<rparr> \<and>
   emoteCount floodMessage + emojiCount exampleEnv floodMessage = 3 \<and>
   moderateMessage exampleEnv (Some floodMessage) (runningWith (emoteLimitOf 2))
     = (Returned, emit (ChatDeleteMessage (str ''m2'')) (runningWith (emoteLimitOf 2)))"
  using emote_limit_deletes_once [of exampleEnv floodMessage "runningWith (emoteLimitOf 2)"
      "\<lparr>el_enabled = True, el_max = Some 2\<rparr>" 2]
  by (simp add: runningWith_fields floodMessage_fields floodMessage_count exampleEnv_fields
        emoteLimitOf_def defaultSettings_def)

text \<open>
  Claim C10. For a message of an author without an exempt role while URL moderation is
  on, when the author holds a temporary permit or \<^verbatim>\<open>rawText\<close> does not match the URL
  pattern, \<^verbatim>\<open>moderateMessage\<close> returns early and posts nothing to the worker,
  whatever \<^verbatim>\<open>bannedWordList.enabled\<close> is. The state is the one before the call, or
  that state with the one deletion of the emote-limit stage when that stage fired.
  The settings hold the \<^verbatim>\<open>bannedWordList\<close> and \<^verbatim>\<open>emoteLimit\<close> objects that
  lines 114 to 131 read.
\<close>

theorem permit_or_no_url_skips_worker:
  assumes "\<not> userIsInRole env (username m) (roles m) (exemptRoles (chatModerationSettings st))"
    and "bannedWordList (chatModerationSettings st) \<noteq> None"
    and "emoteLimit (chatModerationSettings st) \<noteq> None"
    and "urlModeration (chatModerationSettings st) = Some u" and "um_enabled u"
    and "hasTemporaryPermission env (username m) \<or> \<not> urlRegexTest (rawText m)"
  shows "fst (moderateMessage env (Some m) st) = Returned \<and>
         workerPosts (events (snd (moderateMessage env (Some m) st))) = workerPosts (events st) \<and>
         snd (moderateMessage env (Some m) st) =
           (if emoteLimitExceeded env (chatModerationSettings st) m = Inr True
            then emit (ChatDeleteMessage (msg_id m)) st else st)"
proof -
  have t: "policyTogglesOff (chatModerationSettings st) = Inr False"
    using assms by (simp add: policyTogglesOff_url)
  obtain b where b: "emoteLimitExceeded env (chatModerationSettings st) m = Inr b"
    using assms(3) emoteLimitExceeded_total by blast
  have u: "urlStage env m st = (Return, st)"
    using assms by (auto simp add: urlStage_def)
  show ?thesis
    using assms(1) t b u by (cases b) (simp_all add: moderateMessage_def)
qed

text \<open>
  Claim C10 with the banned-word list on: a message without a link, and a message with
  a link from the permitted user \<^verbatim>\<open>guest\<close>; neither reaches the worker.
\<close>

theorem permit_or_no_url_skips_worker_witness:
  "\<not> userIsInRole exampleEnv (str ''bob'') [] (exemptRoles urlAndBannedWords) \<and>
   bannedWordList urlAndBannedWords = Some \<lparr>bwl_enabled = True\<rparr> \<and>
   \<not> urlRegexTest (str ''hello'') \<and>
   moderationService (runningWith urlAndBannedWords) = Some 0 \<and>
   moderateMessage exampleEnv (Some (textMessage ''m1'' ''bob'' ''hello'' []))
       (runningWith urlAndBannedWords)
     = (Returned, runningWith urlAndBannedWords) \<and>
   hasTemporaryPermission exampleEnv (str ''guest'') \<and>
   urlRegexTest (str ''see example.com'') \<and>
   moderateMessage exampleEnv (Some (textMessage ''m3'' ''guest'' ''see example.com'' []))
       (runningWith urlAndBannedWords)
     = (Returned, runningWith urlAndBannedWords)"
  using permit_or_no_url_skips_worker [of exampleEnv "textMessage ''m1'' ''bob'' ''hello'' []"
      "runningWith urlAndBannedWords"
      "\<lparr>um_enabled = True, viewTime = Some \<lparr>vt_enabled = True, viewTimeInHours = 5\<rparr>,
        outputMessage = Some (str ''No links, {userName}'')\<rparr>"]
    permit_or_no_url_skips_worker [of exampleEnv "textMessage ''m3'' ''guest'' ''see example.com'' []"
      "runningWith urlAndBannedWords"
      "\<lparr>um_enabled = True, viewTime = Some \<lparr>vt_enabled = True, viewTimeInHours = 5\<rparr>,
        outputMessage = Some (str ''No links, {userName}'')\<rparr>"]
  by (simp add: runningWith_fields textMessage_fields exampleEnv_fields urlAndBannedWords_fields
        no_url_example url_example prod_eq_iff)

text \<open>
  Claim C7. For a message of an author without an exempt role and without a permit,
  whose \<^verbatim>\<open>rawText\<close> matches the URL pattern, with URL moderation and view-time gating
  on and the viewer's hours (the minutes in the channel over 60) below the threshold,
  \<^verbatim>\<open>moderateMessage\<close> makes exactly one \<^verbatim>\<open>deleteMessage\<close> call, for this message,
  and, if an output message is configured, exactly one \<^verbatim>\<open>sendChatMessage\<close> call,
  whose text is the output message with \<^verbatim>\<open>{viewTime}\<close> replaced by the threshold and
  \<^verbatim>\<open>{userName}\<close> replaced by the author's name, as lines 164 and 174 replace them.
  The message is one that reaches the URL stage (the emote-limit stage of lines 131 to
  140 did not delete it), the settings hold the \<^verbatim>\<open>bannedWordList\<close> object that line
  114 reads, and the minutes and the threshold are safe integers.
\<close>

theorem url_view_time_deletes_and_warns:
  assumes "\<not> userIsInRole env (username m) (roles m) (exemptRoles (chatModerationSettings st))"
    and "bannedWordList (chatModerationSettings st) \<noteq> None"
    and "emoteLimitExceeded env (chatModerationSettings st) m = Inr False"
    and "urlModeration (chatModerationSettings st) = Some u" and "um_enabled u"
    and "\<not> hasTemporaryPermission env (username m)"
    and "urlRegexTest (rawText m)"
    and "viewTime u = Some vt" and "vt_enabled vt"
    and "getUserByUsername env (username m) = Some v"
    and "isSafeInteger (minutesInChannel v)" and "isSafeInteger (viewTimeInHours vt)"
    and "of_int (minutesInChannel v) / 60 < (of_int (viewTimeInHours vt) :: rat)"
    and "template = (case outputMessage u of None \<Rightarrow> [] | Some t \<Rightarrow> t)"
  shows "deleteCalls (events (snd (moderateMessage env (Some m) st)))
           = deleteCalls (events st) @ [msg_id m] \<and>
         sendCalls (events (snd (moderateMessage env (Some m) st)))
           = sendCalls (events st) @
             (if template = [] then []
              else [js_replace
                      (js_replace template (str ''{viewTime}'') (decimalDigits (viewTimeInHours vt)))
                      (str ''{userName}'') (username m)])"
proof -
  have el: "emoteLimit (chatModerationSettings st) \<noteq> None"
    using assms(3) by (rule emoteLimitExceeded_present)
  have t: "policyTogglesOff (chatModerationSettings st) = Inr False"
    using assms el by (simp add: policyTogglesOff_url)
  have below: "\<not> viewTimeReached (largeViewTimeReached env) (minutesInChannel v) (viewTimeInHours vt)"
    using assms(11,12,13) by (simp add: viewTimeReached_safe)
  have digits: "numberToString (largeNumberToString env) (viewTimeInHours vt)
                  = decimalDigits (viewTimeInHours vt)"
    using assms(12) by (rule numberToString_safe)
  define out where
    "out = js_replace template (str ''{viewTime}'') (decimalDigits (viewTimeInHours vt))"
  define st1 where "st1 = urlDelete m out
      (emit (Logger LogDebug (str ''Url moderation: Not enough view time.''))
        (emit (Logger LogDebug (str ''Url moderation: Found url in message...'')) st))"
  have c: "urlViewTimeCheck env u m
             (emit (Logger LogDebug (str ''Url moderation: Found url in message...'')) st)
           = (Continue, st1)"
    using assms(8,9,10,14) below digits by (simp add: urlViewTimeCheck_def st1_def out_def)
  have u: "urlStage env m st = (Continue, st1)"
    using assms(4,5,6,7) c by (simp add: urlStage_def)
  have mm: "moderateMessage env (Some m) st = postModerateMessage m st1"
    using assms(1,3) t u by (simp add: moderateMessage_def)
  have ne: "template \<noteq> [] \<Longrightarrow> out \<noteq> []"
    by (simp add: out_def js_replace_nonempty)
  have emp: "template = [] \<Longrightarrow> out = []"
    by (simp add: out_def js_replace_def str_def)
  have e1: "deleteCalls (events st1) = deleteCalls (events st) @ [msg_id m]"
    by (simp add: st1_def urlDelete_def Let_def)
  have e2: "sendCalls (events st1) = sendCalls (events st) @
             (if template = [] then [] else [js_replace out (str ''{userName}'') (username m)])"
    using ne emp by (cases "template = []") (simp_all add: st1_def urlDelete_def Let_def)
  have p: "deleteCalls (events (snd (postModerateMessage m st1))) = deleteCalls (events st1)
         \<and> sendCalls (events (snd (postModerateMessage m st1))) = sendCalls (events st1)"
    by (simp add: postModerateMessage_def split: option.splits)
  show ?thesis using mm e1 e2 p by (simp add: out_def)
qed

text \<open>
  Claim C7 on the example of the specification: the output message
  \<^verbatim>\<open>Need {viewTime}h, {userName}\<close>, a threshold of 5 hours and the author \<^verbatim>\<open>alice\<close>
  (120 minutes in the channel) give one deletion and the one chat message
  \<^verbatim>\<open>Need 5h, alice\<close>.
\<close>

theorem url_view_time_deletes_and_warns_witness:
  "\<not> userIsInRole exampleEnv (str ''alice'') [] (exemptRoles (urlGated 5 ''Need {viewTime}h, {userName}'')) \<and>
   emoteLimitExceeded exampleEnv (urlGated 5 ''Need {viewTime}h, {userName}'')
     (textMessage ''m1'' ''alice'' ''see example.com'' []) = Inr False \<and>
   \<not> hasTemporaryPermission exampleEnv (str ''alice'') \<and>
   urlRegexTest (str ''see example.com'') \<and>
   getUserByUsername exampleEnv (str ''alice'') = Some \<lparr>minutesInChannel = 120\<rparr> \<and>
   isSafeInteger 120 \<and> isSafeInteger 5 \<and>
   (of_int 120 / 60 :: rat) < of_int 5 \<and>
   deleteCalls (events (snd (moderateMessage exampleEnv
       (Some (textMessage ''m1'' ''alice'' ''see example.com'' []))
       (runningWith (urlGated 5 ''Need {viewTime}h, {userName}''))))) = [str ''m1''] \<and>
   sendCalls (events (snd (moderateMessage exampleEnv
       (Some (textMessage ''m1'' ''alice'' ''see example.com'' []))
       (runningWith (urlGated 5 ''Need {viewTime}h, {userName}''))))) = [str ''Need 5h, alice'']"
  using url_view_time_deletes_and_warns [of exampleEnv "textMessage ''m1'' ''alice'' ''see example.com'' []"
      "runningWith (urlGated 5 ''Need {viewTime}h, {userName}'')"
      "\<lparr>um_enabled = True, viewTime = Some \<lparr>vt_enabled = True, viewTimeInHours = 5\<rparr>,
        outputMessage = Some (str ''Need {viewTime}h, {userName}'')\<rparr>"
      "\<lparr>vt_enabled = True, viewTimeInHours = 5\<rparr>" "\<lparr>minutesInChannel = 120\<rparr>"
      "str ''Need {viewTime}h, {userName}''"]
  by (simp add: runningWith_fields runningWith_trace textMessage_fields exampleEnv_fields
        urlGated_fields url_example names_differ template_example str_nonempty isSafeInteger_def)

text \<open>
  The post of lines 181 to 189 throws whenever no worker is running, and the lookup of
  line 157 makes line 159 throw whenever it finds no viewer.
\<close>

lemma post_without_worker_throws:
  "moderationService st = None \<Longrightarrow> postModerateMessage m st = (Threw TypeError, st)"
  by (simp add: postModerateMessage_def)

lemma unknown_viewer_check_throws:
  "viewTime u = Some vt \<Longrightarrow> vt_enabled vt \<Longrightarrow> getUserByUsername env (username m) = None
     \<Longrightarrow> urlViewTimeCheck env u m st = (Throw TypeError, st)"
  by (simp add: urlViewTimeCheck_def)

text \<open>
  Claim C2 fails on the code. A worker is started, reports a fault (the listener of
  lines 72 to 77 sets \<^verbatim>\<open>moderationService\<close> to \<^verbatim>\<open>null\<close>), and a message of a
  non-exempt author arrives while the banned-word list is on: the post of line 181
  dereferences \<^verbatim>\<open>null\<close>, so \<^verbatim>\<open>moderateMessage\<close> throws \<^verbatim>\<open>TypeError\<close> instead of
  dropping the task. \<^verbatim>\<open>saveBannedWordList\<close> guards the same post with a test.
\<close>

theorem post_after_worker_fault_throws:
  "(case onWorkerError (str ''1'') (runningWith bannedWordsOnly) of
      Inl e \<Rightarrow> False
    | Inr st \<Rightarrow>
        moderationService st = None \<and>
        \<not> userIsInRole exampleEnv (str ''bob'') [] (exemptRoles (chatModerationSettings st)) \<and>
        moderateMessage exampleEnv (Some (textMessage ''m1'' ''bob'' ''hello'' [])) st
          = (Threw TypeError, st))"
proof -
  define st where "st = (emit (WorkerUnref 0)
      (emit (Logger LogWarn (str ''Moderation worker failed with code: '' @ str ''1'' @ str ''.''))
         (runningWith bannedWordsOnly)))\<lparr>moderationService := None\<rparr>"
  have a: "onWorkerError (str ''1'') (runningWith bannedWordsOnly) = Inr st"
    by (simp add: onWorkerError_def Let_def runningWith_fields st_def)
  have b: "moderationService st = None" "chatModerationSettings st = bannedWordsOnly"
    by (simp_all add: st_def runningWith_fields)
  have c: "\<not> userIsInRole exampleEnv (str ''bob'') [] (exemptRoles (chatModerationSettings st))"
    by (simp add: b exampleEnv_fields bannedWordsOnly_fields)
  have "moderateMessage exampleEnv (Some (textMessage ''m1'' ''bob'' ''hello'' [])) st
          = postModerateMessage (textMessage ''m1'' ''bob'' ''hello'' []) st"
    by (rule moderateMessage_reaches_post
          [where b = "\<lparr>bwl_enabled = True\<rparr>" and u = defaultUrlModeration])
       (simp_all add: b textMessage_fields exampleEnv_fields bannedWordsOnly_fields)
  then have d: "moderateMessage exampleEnv (Some (textMessage ''m1'' ''bob'' ''hello'' [])) st
          = (Threw TypeError, st)"
    by (simp add: post_without_worker_throws b)
  show ?thesis using b(1) c d by (simp add: a)
qed

text \<open>
  Claim C3 fails on the code. The author \<^verbatim>\<open>bob\<close> is unknown to the viewer directory,
  has no exempt role and no permit, and sends a link while URL moderation and view-time
  gating are on: line 159 reads \<^verbatim>\<open>minutesInChannel\<close> of \<^verbatim>\<open>null\<close>, so
  \<^verbatim>\<open>moderateMessage\<close> throws \<^verbatim>\<open>TypeError\<close> to its caller.
\<close>

theorem unknown_viewer_throws:
  "getUserByUsername exampleEnv (str ''bob'') = None \<and>
   \<not> userIsInRole exampleEnv (str ''bob'') [] (exemptRoles (urlGated 5 ''Need {viewTime}h, {userName}'')) \<and>
   \<not> hasTemporaryPermission exampleEnv (str ''bob'') \<and>
   urlRegexTest (str ''see example.com'') \<and>
   fst (moderateMessage exampleEnv (Some (textMessage ''m1'' ''bob'' ''see example.com'' []))
     (runningWith (urlGated 5 ''Need {viewTime}h, {userName}''))) = Threw TypeError"
  by (simp add: moderateMessage_def urlStage_def urlViewTimeCheck_def runningWith_fields
        textMessage_fields exampleEnv_fields urlGated_fields url_example names_differ)

section \<open>Policy store: the word list and the stored settings\<close>

lemma saveBannedWordList_words: "bannedWords (saveBannedWordList env st) = bannedWords st"
  by (simp add: saveBannedWordList_def Let_def split: option.splits)

text \<open>
  The removal compares the lower-cased text of an entry with the query as given: it
  removes the entries whose lower-cased text is the query.
\<close>

lemma removeBannedWord_words:
  "doc_words (bannedWords st) = Some ws \<Longrightarrow>
   (\<exists>st1. removeBannedWord env q st = Inr st1 \<and>
      doc_words (bannedWords st1)
        = Some (filter (\<lambda>w. toLowerCase (unicodeToLowerCase env) (word_text w) \<noteq> q) ws))"
  by (simp add: removeBannedWord_def saveBannedWordList_words)

text \<open>
  Claim C4 fails on the code for a query with an upper-case letter. Line 228 lower-cases
  the stored text only: after adding \<^verbatim>\<open>foo\<close>, removing \<^verbatim>\<open>Foo\<close> leaves \<^verbatim>\<open>foo\<close> in
  the list, and after adding \<^verbatim>\<open>Foo\<close>, removing \<^verbatim>\<open>Foo\<close> leaves \<^verbatim>\<open>Foo\<close> in the
  list. The direction of the specification's example holds: after adding \<^verbatim>\<open>Foo\<close>,
  removing \<^verbatim>\<open>foo\<close> leaves the list empty.
\<close>

theorem removeBannedWord_upper_case_query:
  "(case addBannedWords exampleEnv [\<lparr>word_text = str ''foo''\<rparr>] initialState of
      Inl e \<Rightarrow> False
    | Inr st1 \<Rightarrow>
        (case removeBannedWord exampleEnv (str ''Foo'') st1 of
           Inl e \<Rightarrow> False
         | Inr st2 \<Rightarrow> doc_words (bannedWords st2) = Some [\<lparr>word_text = str ''foo''\<rparr>])) \<and>
   (case addBannedWords exampleEnv [\<lparr>word_text = str ''Foo''\<rparr>] initialState of
      Inl e \<Rightarrow> False
    | Inr st1 \<Rightarrow>
        (case removeBannedWord exampleEnv (str ''Foo'') st1 of
           Inl e \<Rightarrow> False
         | Inr st2 \<Rightarrow> doc_words (bannedWords st2) = Some [\<lparr>word_text = str ''Foo''\<rparr>])) \<and>
   (case addBannedWords exampleEnv [\<lparr>word_text = str ''Foo''\<rparr>] initialState of
      Inl e \<Rightarrow> False
    | Inr st1 \<Rightarrow>
        (case removeBannedWord exampleEnv (str ''foo'') st1 of
           Inl e \<Rightarrow> False
         | Inr st2 \<Rightarrow> doc_words (bannedWords st2) = Some []))"
  by (simp add: addBannedWords_def removeBannedWord_def saveBannedWordList_words initialState_def
        case_lower)

text \<open>After \<^verbatim>\<open>load\<close> read a settings document, the settings are that document completed.\<close>

lemma load_settings:
  assumes "settingsDbGetData env = Inr (Some s)"
  shows "chatModerationSettings (load env st) = backfill s"
proof -
  have a: "\<And>x. chatModerationSettings (startModerationService env x) = chatModerationSettings x"
    by (simp add: startModerationService_def Let_def split: option.splits)
  have b: "\<And>d x. chatModerationSettings (loadWords d x) = chatModerationSettings x"
    by (simp add: loadWords_def split: option.splits)
  have c: "\<And>e x. chatModerationSettings (loadCatch e x) = chatModerationSettings x"
    by (simp add: loadCatch_def)
  have d: "chatModerationSettings (loadSettings (Some s) st) = backfill s"
    by (simp add: loadSettings_def Let_def split: option.splits)
  show ?thesis
    using assms a b c d by (simp add: load_def Let_def split: sum.splits)
qed

text \<open>
  Claim C5, as the code has it. After \<^verbatim>\<open>load\<close> read a stored settings document, the
  settings hold \<^verbatim>\<open>exemptRoles\<close>, \<^verbatim>\<open>emoteLimit\<close> and \<^verbatim>\<open>urlModeration\<close>: each is the
  stored one when the document has it, unchanged, and otherwise the default (no exempt
  role; \<^verbatim>\<open>enabled\<close> false and \<^verbatim>\<open>max\<close> 10; \<^verbatim>\<open>enabled\<close> false, view-time gating off
  with 0 hours and an empty output message). Fields missing inside a stored sub-object
  are not completed.
\<close>

theorem load_backfills_top_level:
  assumes "settingsDbGetData env = Inr (Some s)"
  shows "exemptRoles (chatModerationSettings (load env st))
           = Some (case exemptRoles s of None \<Rightarrow> [] | Some r \<Rightarrow> r) \<and>
         emoteLimit (chatModerationSettings (load env st))
           = Some (case emoteLimit s of
                     None \<Rightarrow> \<lparr>el_enabled = False, el_max = Some 10\<rparr>
                   | Some e \<Rightarrow> e) \<and>
         urlModeration (chatModerationSettings (load env st))
           = Some (case urlModeration s of
                     None \<Rightarrow> \<lparr>um_enabled = False,
                              viewTime = Some \<lparr>vt_enabled = False, viewTimeInHours = 0\<rparr>,
                              outputMessage = Some []\<rparr>
                   | Some u \<Rightarrow> u)"
  using load_settings [OF assms, of st]
  by (simp add: backfill_def defaultEmoteLimit_def defaultUrlModeration_def split: option.splits)

text \<open>
  Claim C5, amended, on a stored document that holds \<^verbatim>\<open>urlModeration: {enabled: true}\<close>
  only: the exempt roles and the emote limit get their defaults.
\<close>

theorem load_backfills_top_level_witness:
  "settingsDbGetData (storedEnv partialSettings) = Inr (Some partialSettings) \<and>
   exemptRoles (chatModerationSettings (load (storedEnv partialSettings) initialState)) = Some [] \<and>
   emoteLimit (chatModerationSettings (load (storedEnv partialSettings) initialState))
     = Some \<lparr>el_enabled = False, el_max = Some 10\<rparr>"
  using load_backfills_top_level [of "storedEnv partialSettings" partialSettings initialState]
  by (simp add: storedEnv_read partialSettings_def)

text \<open>
  Claim C5 as stated fails on the same document: after \<^verbatim>\<open>load\<close> the settings have no
  \<^verbatim>\<open>bannedWordList\<close>, and \<^verbatim>\<open>urlModeration\<close> has neither \<^verbatim>\<open>viewTime\<close> nor
  \<^verbatim>\<open>outputMessage\<close>.
\<close>

theorem load_keeps_nested_fields_missing:
  "settingsDbGetData (storedEnv partialSettings) = Inr (Some partialSettings) \<and>
   bannedWordList (chatModerationSettings (load (storedEnv partialSettings) initialState)) = None \<and>
   urlModeration (chatModerationSettings (load (storedEnv partialSettings) initialState))
     = Some \<lparr>um_enabled = True, viewTime = None, outputMessage = None\<rparr>"
  by (simp add: load_settings storedEnv_read backfill_def partialSettings_def)

end
